theory Spec2Isabelle
  imports Main "HOL-Library.Multiset" "HOL-Library.Product_Lexorder" "HOL-Library.AList"
begin

section \<open>Values, errors and the outcome of an awaited call\<close>

text \<open>
  Timestamps are milliseconds since the epoch (\<open>int\<close>); an operation reads the clock
  once, as its argument \<open>now\<close>. A value that arrives in the body of a request is not
  typed by the code: it is a JSON string or a JSON number, and the code compares such
  values with \<open>===\<close>, under which a string never equals a number. Equality of \<open>jsval\<close>
  is that comparison.
\<close>

datatype jsval = Text string | Number int

text \<open>The errors thrown by the modelled code, one constructor per message.\<close>

datatype err =
    Job_not_found
  | Link_not_found_for_server
  | Group_not_verified
  | Role_not_found jsval
  | User_not_in_group
  | Roblox_link_not_found
  | External string

text \<open>
  An \<open>async\<close> function that is awaited returns a value, throws, or never settles: it
  waits for ever in one of the polling loops of the document store. The caller of a call
  that waits for ever waits for ever itself.
\<close>

datatype 'a outcome = Returned 'a | Thrown err | Waiting

text \<open>
  Sequencing of awaited calls over a state: \<open>andThen\<close> is \<open>await\<close> followed by the rest
  of the function, \<open>tryCatch\<close> a \<open>try\<close> block with its \<open>catch\<close> clause.
\<close>

definition return :: "'a \<Rightarrow> 's \<Rightarrow> 'a outcome \<times> 's" where
  "return a s = (Returned a, s)"

definition throw :: "err \<Rightarrow> 's \<Rightarrow> 'a outcome \<times> 's" where
  "throw e s = (Thrown e, s)"

definition andThen ::
  "('s \<Rightarrow> 'a outcome \<times> 's) \<Rightarrow> ('a \<Rightarrow> 's \<Rightarrow> 'b outcome \<times> 's) \<Rightarrow> 's \<Rightarrow> 'b outcome \<times> 's" where
  "andThen m k s =
     (case m s of
        (Returned a, s') \<Rightarrow> k a s'
      | (Thrown e, s') \<Rightarrow> (Thrown e, s')
      | (Waiting, s') \<Rightarrow> (Waiting, s'))"

definition tryCatch ::
  "('s \<Rightarrow> 'a outcome \<times> 's) \<Rightarrow> (err \<Rightarrow> 's \<Rightarrow> 'a outcome \<times> 's) \<Rightarrow> 's \<Rightarrow> 'a outcome \<times> 's" where
  "tryCatch m handler s =
     (case m s of
        (Returned a, s') \<Rightarrow> (Returned a, s')
      | (Thrown e, s') \<Rightarrow> handler e s'
      | (Waiting, s') \<Rightarrow> (Waiting, s'))"

text \<open>A call of a client outside the system: it returns or throws, and leaves the state.\<close>

definition outside :: "err + 'a \<Rightarrow> 's \<Rightarrow> 'a outcome \<times> 's" where
  "outside r s = (case r of Inl e \<Rightarrow> (Thrown e, s) | Inr a \<Rightarrow> (Returned a, s))"

section \<open>The JSON document store (data/db\_handler.js)\<close>

text \<open>
  \<open>DatabaseHandler\<close> keeps, per file path, the JSON document on disk, an entry of its
  \<open>locks\<close> map and an entry of its read \<open>cache\<close> (the data and the time it was read).
  The record below is what the handler holds for one path. Its last field is not part of
  the handler: it is the journal of the \<open>modify\<close> calls made on the path, each entered as
  the function from the document read to the document that the call would write.

  An object returned by \<open>read\<close> is the cached object itself, so a caller that assigns to
  a property of it changes the cache entry (\<open>mutateCached\<close>).
\<close>

record 'd docfile =
  f_disk :: 'd
  f_lock :: bool
  f_cache :: "('d \<times> int) option"
  f_requests :: "('d \<Rightarrow> err + 'd) list"

text \<open>
  \<open>waitForLock\<close> and \<open>acquireLock\<close>: \<open>while (this.locks.get(filePath)) await\<close> a timer
  of 10 ms. The timer changes nothing of the handler, so each round of the loop finds the
  state of the round before. Only \<open>releaseLock\<close> (called by \<open>write\<close>, \<open>modify\<close> and
  \<open>delete\<close> as their last step) and \<open>close\<close> (called when the process shuts down)
  remove a lock; the three documents modelled here are reached through \<open>read\<close> and
  \<open>modify\<close> only. A loop that does not end has the value \<open>None\<close>.
\<close>

partial_function (option) waitForLock :: "'d docfile \<Rightarrow> unit option" where
  "waitForLock f = (if f_lock f then waitForLock f else Some ())"

partial_function (option) acquireLock :: "'d docfile \<Rightarrow> 'd docfile option" where
  "acquireLock f = (if f_lock f then acquireLock f else Some (f\<lparr> f_lock := True \<rparr>))"

definition releaseLock :: "'d docfile \<Rightarrow> 'd docfile" where
  "releaseLock f = f\<lparr> f_lock := False \<rparr>"

text \<open>
  \<open>read(filePath, useCache)\<close>: a cache entry younger than five seconds is returned as
  it is; otherwise the call waits until the path is not locked, reads the file and, when
  the cache is used, enters what it read.
\<close>

definition read :: "int \<Rightarrow> bool \<Rightarrow> 'd docfile \<Rightarrow> 'd outcome \<times> 'd docfile" where
  "read now useCache f =
     (case (if useCache then f_cache f else None) of
        Some (data, timestamp) \<Rightarrow>
          if now - timestamp < 5000 then (Returned data, f)
          else
            (case waitForLock f of
               None \<Rightarrow> (Waiting, f)
             | Some u \<Rightarrow> (Returned (f_disk f), f\<lparr> f_cache := Some (f_disk f, now) \<rparr>))
      | None \<Rightarrow>
          (case waitForLock f of
             None \<Rightarrow> (Waiting, f)
           | Some u \<Rightarrow>
               (Returned (f_disk f),
                if useCache then f\<lparr> f_cache := Some (f_disk f, now) \<rparr> else f)))"

text \<open>
  A modifier is the arrow function handed to \<open>modify\<close>: from the document read it
  computes the document to write, or throws; what it assigns to variables of the
  enclosing function is the first component of its result. \<open>document\<close> is the modifier
  as a function between documents.
\<close>

definition document :: "('d \<Rightarrow> err + 'r \<times> 'd) \<Rightarrow> 'd \<Rightarrow> err + 'd" where
  "document modifier data =
     (case modifier data of Inl e \<Rightarrow> Inl e | Inr (r, modified) \<Rightarrow> Inr modified)"

text \<open>
  \<open>modify(filePath, modifier)\<close>: take the lock, read the file without the cache, apply
  the modifier, write the result, drop the cache entry, release the lock. An error thrown
  by the modifier leaves the lock taken.
\<close>

definition modify ::
  "int \<Rightarrow> ('d \<Rightarrow> err + 'r \<times> 'd) \<Rightarrow> 'd docfile \<Rightarrow> ('r \<times> 'd) outcome \<times> 'd docfile" where
  "modify now modifier f0 =
     (let f = f0\<lparr> f_requests := f_requests f0 @ [document modifier] \<rparr>
      in case acquireLock f of
           None \<Rightarrow> (Waiting, f)
         | Some f1 \<Rightarrow>
             andThen (read now False)
               (\<lambda>data f2.
                  case modifier data of
                    Inl e \<Rightarrow> (Thrown e, f2)
                  | Inr (r, modified) \<Rightarrow>
                      (Returned (r, modified),
                       releaseLock (f2\<lparr> f_disk := modified, f_cache := None \<rparr>))) f1)"

text \<open>An assignment to a property of the object that the last \<open>read\<close> returned.\<close>

definition mutateCached :: "('d \<Rightarrow> 'd) \<Rightarrow> 'd docfile \<Rightarrow> unit outcome \<times> 'd docfile" where
  "mutateCached g f =
     (Returned (),
      f\<lparr> f_cache := map_option (\<lambda>(data, timestamp). (g data, timestamp)) (f_cache f) \<rparr>)"

text \<open>
  The documents that the \<open>modify\<close> calls made so far would write, each computed from
  the document now on disk.
\<close>

definition requested :: "'d docfile \<Rightarrow> (err + 'd) list" where
  "requested f = map (\<lambda>request. request (f_disk f)) (f_requests f)"

text \<open>A file as the handler finds it at start: on disk, not locked, not cached.\<close>

definition stored :: "'d \<Rightarrow> 'd docfile" where
  "stored data = \<lparr> f_disk = data, f_lock = False, f_cache = None, f_requests = [] \<rparr>"

section \<open>The stored documents\<close>

text \<open>
  Modelled from the spec: the table \<open>SYNC_STATUS\<close> of shared/constants is not part of the
  sources; the spec names the five states of a job.
\<close>

datatype sync_status = QUEUED | IN_PROGRESS | RETRYING | COMPLETED | FAILED

text \<open>
  A job as \<open>addJob\<close> builds it. The fields \<open>robloxUsername\<close>, \<open>discordUserId\<close>,
  \<open>discordRoleId\<close>, \<open>reason\<close> and \<open>applicationId\<close> are stored and never read by
  the operations below; they are left out. The server id is the key of a link record, a
  string; the subject's id and the rank come from the body of a request.
\<close>

record job =
  j_id :: string
  j_serverId :: string
  j_robloxUserId :: jsval
  j_groupId :: string
  j_newRank :: jsval
  j_status :: sync_status
  j_priority :: int
  j_attempts :: nat
  j_maxAttempts :: nat
  j_lastAttemptAt :: "int option"
  j_nextRetryAt :: "int option"
  j_errors :: "(err \<times> int) list"
  j_lastError :: "err option"
  j_createdAt :: int
  j_updatedAt :: int
  j_completedAt :: "int option"

text \<open>
  Modelled from the spec: the table \<open>ROBLOX_LINK_STATUS\<close> of shared/constants is not part
  of the sources; the spec names the three verification states of a LinkRecord.
\<close>

datatype link_status = PENDING_VERIFICATION | VERIFIED | VERIFICATION_FAILED

text \<open>
  A link as \<open>createLink\<close> builds it, with the \<open>analytics\<close> object flattened. The
  fields \<open>enabledTemplates\<close>, \<open>roleMappings\<close> and \<open>settings\<close> are not read by the
  operations below; they are left out.
\<close>

record link =
  l_serverId :: string
  l_groupId :: string
  l_placeIds :: "string list"
  l_apiKeyHash :: string
  l_apiKeyCreated :: int
  l_apiKeyLastUsed :: "int option"
  l_status :: link_status
  l_verified :: bool
  l_verifiedAt :: "int option"
  l_totalSubmissions :: nat
  l_totalSyncs :: nat
  l_lastSyncAt :: "int option"
  l_failedSyncs :: nat
  l_createdAt :: int
  l_updatedAt :: int

text \<open>
  The links document is a JavaScript object keyed by server id: an association list in
  insertion order, which is the order \<open>Object.entries\<close> enumerates. Assigning to a
  present key keeps its position, to a new key appends (\<open>AList.update\<close>).
\<close>

type_synonym links = "(string \<times> link) list"

text \<open>A verification challenge as \<open>startVerification\<close> builds it (without \<open>groupName\<close>).\<close>

record verification =
  v_serverId :: string
  v_groupId :: string
  v_code :: string
  v_initiatedBy :: string
  v_createdAt :: int
  v_expiresAt :: int
  v_verified :: bool
  v_verifiedAt :: "int option"
  v_attempts :: nat
  v_maxAttempts :: nat

type_synonym verifications = "string \<rightharpoonup> verification"

text \<open>
  The state the operations act on: what the handler holds for the three paths
  \<open>PATHS.ROBLOX.SYNC_QUEUE\<close>, \<open>LINKS\<close> and \<open>VERIFICATIONS\<close>, and the log of the calls
  of the Directory Service's mutating \<open>setUserRank\<close> (group, user, role id), which stands
  for the effect on the external group.
\<close>

record world =
  w_queue :: "job list docfile"
  w_links :: "links docfile"
  w_verifications :: "verifications docfile"
  w_setRankCalls :: "(string \<times> jsval \<times> int) list"

text \<open>A call of the handler on one of the three paths.\<close>

definition onQueue ::
  "(job list docfile \<Rightarrow> 'a outcome \<times> job list docfile) \<Rightarrow> world \<Rightarrow> 'a outcome \<times> world" where
  "onQueue call w = (case call (w_queue w) of (r, f) \<Rightarrow> (r, w\<lparr> w_queue := f \<rparr>))"

definition onLinks ::
  "(links docfile \<Rightarrow> 'a outcome \<times> links docfile) \<Rightarrow> world \<Rightarrow> 'a outcome \<times> world" where
  "onLinks call w = (case call (w_links w) of (r, f) \<Rightarrow> (r, w\<lparr> w_links := f \<rparr>))"

definition onVerifications ::
  "(verifications docfile \<Rightarrow> 'a outcome \<times> verifications docfile)
     \<Rightarrow> world \<Rightarrow> 'a outcome \<times> world" where
  "onVerifications call w =
     (case call (w_verifications w) of (r, f) \<Rightarrow> (r, w\<lparr> w_verifications := f \<rparr>))"

section \<open>The synchronization queue (Roblox/database/sync\_queue.js)\<close>

text \<open>The argument of \<open>addJob\<close>; an absent property is \<open>None\<close>.\<close>

record jobData =
  jd_serverId :: string
  jd_robloxUserId :: jsval
  jd_groupId :: string
  jd_newRank :: jsval
  jd_priority :: "int option"
  jd_maxAttempts :: "nat option"

text \<open>JavaScript's \<open>x || d\<close> on a number: an absent value and \<open>0\<close> are falsy.\<close>

definition or_default :: "'a::zero option \<Rightarrow> 'a \<Rightarrow> 'a" where
  "or_default x d = (case x of None \<Rightarrow> d | Some v \<Rightarrow> if v = 0 then d else v)"

text \<open>Truthiness of an optional string and of an optional value of a request.\<close>

definition truthy :: "string option \<Rightarrow> bool" where
  "truthy s = (case s of None \<Rightarrow> False | Some v \<Rightarrow> v \<noteq> [])"

definition truthy_val :: "jsval option \<Rightarrow> bool" where
  "truthy_val x =
     (case x of None \<Rightarrow> False | Some (Text s) \<Rightarrow> s \<noteq> [] | Some (Number n) \<Rightarrow> n \<noteq> 0)"

definition getAllJobs :: "int \<Rightarrow> world \<Rightarrow> job list outcome \<times> world" where
  "getAllJobs now = tryCatch (onQueue (read now True)) (\<lambda>error. return [])"

text \<open>
  \<open>addJob\<close>: the object \<open>job\<close> it builds (the new id is the UUID drawn by
  \<open>db.generateId()\<close>), the modifier that pushes it, and the function itself.
\<close>

definition addJob_job :: "jobData \<Rightarrow> string \<Rightarrow> int \<Rightarrow> job" where
  "addJob_job jobData newId now =
     \<lparr> j_id = newId,
       j_serverId = jd_serverId jobData,
       j_robloxUserId = jd_robloxUserId jobData,
       j_groupId = jd_groupId jobData,
       j_newRank = jd_newRank jobData,
       j_status = QUEUED,
       j_priority = or_default (jd_priority jobData) 0,
       j_attempts = 0,
       j_maxAttempts = or_default (jd_maxAttempts jobData) 3,
       j_lastAttemptAt = None,
       j_nextRetryAt = None,
       j_errors = [],
       j_lastError = None,
       j_createdAt = now,
       j_updatedAt = now,
       j_completedAt = None \<rparr>"

definition addJob_modifier :: "job \<Rightarrow> job list \<Rightarrow> err + unit \<times> job list" where
  "addJob_modifier job queue = Inr ((), queue @ [job])"

definition addJob :: "jobData \<Rightarrow> string \<Rightarrow> int \<Rightarrow> world \<Rightarrow> job outcome \<times> world" where
  "addJob jobData newId now =
     (let job = addJob_job jobData newId now
      in andThen (onQueue (modify now (addJob_modifier job))) (\<lambda>written. return job))"

definition getJob :: "string \<Rightarrow> int \<Rightarrow> world \<Rightarrow> job option outcome \<times> world" where
  "getJob jobId now =
     tryCatch
       (andThen (getAllJobs now) (\<lambda>queue. return (find (\<lambda>j. j_id j = jobId) queue)))
       (\<lambda>error. return None)"

text \<open>\<open>Array.prototype.findIndex\<close>; \<open>None\<close> stands for \<open>-1\<close>.\<close>

fun findIndex :: "('a \<Rightarrow> bool) \<Rightarrow> 'a list \<Rightarrow> nat option" where
  "findIndex P [] = None"
| "findIndex P (x # xs) =
     (if P x then Some 0 else map_option Suc (findIndex P xs))"

text \<open>
  \<open>updateJob\<close>: the object spread \<open>{...queue[index], ...updates, updatedAt}\<close> is the
  function \<open>updates\<close> applied to the stored job, then the new \<open>updatedAt\<close>. The modifier
  assigns the new object to \<open>updatedJob\<close>, which \<open>updateJob\<close> returns.
\<close>

definition updateJob_modifier ::
  "string \<Rightarrow> (job \<Rightarrow> job) \<Rightarrow> int \<Rightarrow> job list \<Rightarrow> err + job \<times> job list" where
  "updateJob_modifier jobId updates now queue =
     (case findIndex (\<lambda>j. j_id j = jobId) queue of
        None \<Rightarrow> Inl Job_not_found
      | Some index \<Rightarrow>
          (let updatedJob = (updates (queue ! index))\<lparr> j_updatedAt := now \<rparr>
           in Inr (updatedJob, queue[index := updatedJob])))"

definition updateJob ::
  "string \<Rightarrow> (job \<Rightarrow> job) \<Rightarrow> int \<Rightarrow> world \<Rightarrow> job outcome \<times> world" where
  "updateJob jobId updates now =
     andThen (onQueue (modify now (updateJob_modifier jobId updates now)))
       (\<lambda>(updatedJob, queue). return updatedJob)"



text \<open>
  The backoff of \<open>markFailed\<close>: \<open>Math.min(5 * Math.pow(2, job.attempts - 1), 30)\<close>, on the
  incremented counter, which is at least 1.
\<close>

definition delayMinutes :: "nat \<Rightarrow> nat" where
  "delayMinutes attempts = min (5 * 2 ^ (attempts - 1)) 30"

text \<open>The first element that satisfies \<open>P\<close> replaced: an assignment to the found object.\<close>

definition replaceFirst :: "('a \<Rightarrow> bool) \<Rightarrow> 'a \<Rightarrow> 'a list \<Rightarrow> 'a list" where
  "replaceFirst P y xs = (case findIndex P xs of None \<Rightarrow> xs | Some i \<Rightarrow> xs[i := y])"

text \<open>
  \<open>markFailed\<close>: the job found by \<open>getJob\<close> is an object of the cached array; the
  function increments its \<open>attempts\<close>, pushes the error and sets \<open>lastError\<close> on that
  object, and then hands \<open>updateJob\<close> the values it has set together with the new status.
\<close>

definition markFailed ::
  "string \<Rightarrow> err \<Rightarrow> bool \<Rightarrow> int \<Rightarrow> world \<Rightarrow> job outcome \<times> world" where
  "markFailed jobId errorMessage retry now =
     andThen (getJob jobId now) (\<lambda>found.
       case found of
         None \<Rightarrow> throw Job_not_found
       | Some read_job \<Rightarrow>
           (let job = read_job\<lparr> j_attempts := j_attempts read_job + 1,
                                j_errors := j_errors read_job @ [(errorMessage, now)],
                                j_lastError := Some errorMessage \<rparr>
            in andThen (onQueue (mutateCached (replaceFirst (\<lambda>j. j_id j = jobId) job)))
                 (\<lambda>assigned.
                    if retry \<and> j_attempts job < j_maxAttempts job
                    then updateJob jobId
                           (\<lambda>j. j\<lparr> j_status := RETRYING,
                                   j_attempts := j_attempts job,
                                   j_errors := j_errors job,
                                   j_lastError := j_lastError job,
                                   j_nextRetryAt :=
                                     Some (now + int (delayMinutes (j_attempts job)) * 60 * 1000) \<rparr>)
                           now
                    else updateJob jobId
                           (\<lambda>j. j\<lparr> j_status := FAILED,
                                   j_attempts := j_attempts job,
                                   j_errors := j_errors job,
                                   j_lastError := j_lastError job,
                                   j_completedAt := Some now \<rparr>)
                           now)))"

text \<open>
  \<open>Array.prototype.sort\<close> with a comparator. The sort is stable (ECMAScript 2019), and
  for a comparator that is a total preorder the stable arrangement is unique, so the
  insertion sort below returns the array the engine returns.
\<close>

fun insertBy :: "('a \<Rightarrow> 'a \<Rightarrow> int) \<Rightarrow> 'a \<Rightarrow> 'a list \<Rightarrow> 'a list" where
  "insertBy cmp x [] = [x]"
| "insertBy cmp x (y # ys) =
     (if cmp x y \<le> 0 then x # y # ys else y # insertBy cmp x ys)"

definition sortBy :: "('a \<Rightarrow> 'a \<Rightarrow> int) \<Rightarrow> 'a list \<Rightarrow> 'a list" where
  "sortBy cmp xs = foldr (insertBy cmp) xs []"




text \<open>
  \<open>getServerJobs\<close> with its duck-typed filter object: a filter applies when its property
  is truthy.
\<close>

record filters =
  flt_status :: "sync_status option"
  flt_robloxUserId :: "jsval option"

definition getServerJobs ::
  "string \<Rightarrow> filters \<Rightarrow> int \<Rightarrow> world \<Rightarrow> job list outcome \<times> world" where
  "getServerJobs serverId flt now =
     tryCatch
       (andThen (getAllJobs now) (\<lambda>queue.
          let filtered = filter (\<lambda>j. j_serverId j = serverId) queue;
              filtered = (case flt_status flt of
                            Some st \<Rightarrow> filter (\<lambda>j. j_status j = st) filtered
                          | None \<Rightarrow> filtered);
              filtered = (if truthy_val (flt_robloxUserId flt)
                          then filter (\<lambda>j. Some (j_robloxUserId j) = flt_robloxUserId flt) filtered
                          else filtered)
          in return (sortBy (\<lambda>a b. j_createdAt b - j_createdAt a) filtered)))
       (\<lambda>error. return [])"

definition getUserJobs :: "string \<Rightarrow> jsval \<Rightarrow> int \<Rightarrow> world \<Rightarrow> job list outcome \<times> world" where
  "getUserJobs serverId robloxUserId now =
     tryCatch
       (getServerJobs serverId \<lparr> flt_status = None, flt_robloxUserId = Some robloxUserId \<rparr> now)
       (\<lambda>error. return [])"

definition nonTerminal :: "job \<Rightarrow> bool" where
  "nonTerminal j =
     (j_status j = QUEUED \<or> j_status j = IN_PROGRESS \<or> j_status j = RETRYING)"

definition hasPendingSync :: "string \<Rightarrow> jsval \<Rightarrow> int \<Rightarrow> world \<Rightarrow> bool outcome \<times> world" where
  "hasPendingSync serverId robloxUserId now =
     tryCatch
       (andThen (getUserJobs serverId robloxUserId now) (\<lambda>jobs.
          return (list_ex nonTerminal jobs)))
       (\<lambda>error. return False)"

text \<open>
  \<open>retryFailedJobs\<close>, the operator's re-queue: the modifier queues every failed job (of
  the server, when one is given and truthy) again with its counter reset, and counts
  them in \<open>retryCount\<close>.
\<close>

definition retryFailedJobs_modifier ::
  "string option \<Rightarrow> int \<Rightarrow> job list \<Rightarrow> err + nat \<times> job list" where
  "retryFailedJobs_modifier serverId now queue =
     (let hit = (\<lambda>job. j_status job = FAILED \<and>
                        (\<not> truthy serverId \<or> Some (j_serverId job) = serverId))
      in Inr (length (filter hit queue),
              map (\<lambda>job. if hit job
                          then job\<lparr> j_status := QUEUED, j_attempts := 0,
                                    j_nextRetryAt := None, j_updatedAt := now \<rparr>
                          else job) queue))"

definition retryFailedJobs :: "string option \<Rightarrow> int \<Rightarrow> world \<Rightarrow> nat outcome \<times> world" where
  "retryFailedJobs serverId now =
     tryCatch
       (andThen (onQueue (modify now (retryFailedJobs_modifier serverId now)))
          (\<lambda>(retryCount, queue). return retryCount))
       (\<lambda>error. return 0)"

section \<open>The link records (Roblox/database/roblox\_links.js)\<close>

record linkData =
  ld_groupId :: string
  ld_placeIds :: "string list option"

text \<open>
  The primitives of Node's \<open>crypto\<close> module and the process environment are parameters:
  the SHA-256 hex digest, the optional \<open>API_KEY_SALT\<close>, and the test whether a request
  signature is the HMAC of the signed data under the key.
\<close>

record crypto =
  c_sha256 :: "string \<Rightarrow> string"
  c_API_KEY_SALT :: "string option"
  c_hmacMatches :: "string \<Rightarrow> string \<Rightarrow> string \<Rightarrow> bool"

definition getAllLinks :: "int \<Rightarrow> world \<Rightarrow> links outcome \<times> world" where
  "getAllLinks now = tryCatch (onLinks (read now True)) (\<lambda>error. return [])"

definition getLink :: "string \<Rightarrow> int \<Rightarrow> world \<Rightarrow> link option outcome \<times> world" where
  "getLink serverId now =
     tryCatch
       (andThen (getAllLinks now) (\<lambda>links. return (map_of links serverId)))
       (\<lambda>error. return None)"

text \<open>\<open>generateApiKey\<close>: \<open>randomBytes\<close> is the hex form of the 32 random bytes drawn.\<close>

definition generateApiKey :: "string \<Rightarrow> string \<Rightarrow> string" where
  "generateApiKey serverId randomBytes = ''ks_roblox_'' @ serverId @ ''_'' @ randomBytes"

definition hashApiKey :: "crypto \<Rightarrow> string \<Rightarrow> string" where
  "hashApiKey cr apiKey =
     (let salt = (if truthy (c_API_KEY_SALT cr) then the (c_API_KEY_SALT cr)
                  else ''default_salt_change_this'')
      in c_sha256 cr (apiKey @ salt))"

text \<open>
  \<open>createLink\<close>: the object \<open>link\<close> it builds, the modifier that stores it under the
  server id, and the function itself, which returns the link and, once, the plain key.
\<close>

definition createLink_link :: "string \<Rightarrow> linkData \<Rightarrow> string \<Rightarrow> int \<Rightarrow> link" where
  "createLink_link serverId linkData hashedKey now =
     \<lparr> l_serverId = serverId,
       l_groupId = ld_groupId linkData,
       l_placeIds = (case ld_placeIds linkData of Some ps \<Rightarrow> ps | None \<Rightarrow> []),
       l_apiKeyHash = hashedKey,
       l_apiKeyCreated = now,
       l_apiKeyLastUsed = None,
       l_status = PENDING_VERIFICATION,
       l_verified = False,
       l_verifiedAt = None,
       l_totalSubmissions = 0,
       l_totalSyncs = 0,
       l_lastSyncAt = None,
       l_failedSyncs = 0,
       l_createdAt = now,
       l_updatedAt = now \<rparr>"

definition createLink_modifier :: "string \<Rightarrow> link \<Rightarrow> links \<Rightarrow> err + unit \<times> links" where
  "createLink_modifier serverId link links = Inr ((), AList.update serverId link links)"

definition createLink ::
  "crypto \<Rightarrow> string \<Rightarrow> linkData \<Rightarrow> string \<Rightarrow> int \<Rightarrow> world \<Rightarrow> (link \<times> string) outcome \<times> world" where
  "createLink cr serverId linkData randomBytes now =
     (let apiKey = generateApiKey serverId randomBytes;
          hashedKey = hashApiKey cr apiKey;
          link = createLink_link serverId linkData hashedKey now
      in andThen (onLinks (modify now (createLink_modifier serverId link)))
           (\<lambda>written. return (link, apiKey)))"

text \<open>\<open>updateLink\<close> returns the entry of the document that \<open>modify\<close> returns.\<close>

definition updateLink_modifier ::
  "string \<Rightarrow> (link \<Rightarrow> link) \<Rightarrow> int \<Rightarrow> links \<Rightarrow> err + unit \<times> links" where
  "updateLink_modifier serverId updates now links =
     (case map_of links serverId of
        None \<Rightarrow> Inl Roblox_link_not_found
      | Some old \<Rightarrow>
          Inr ((), AList.update serverId ((updates old)\<lparr> l_updatedAt := now \<rparr>) links))"

definition updateLink ::
  "string \<Rightarrow> (link \<Rightarrow> link) \<Rightarrow> int \<Rightarrow> world \<Rightarrow> link option outcome \<times> world" where
  "updateLink serverId updates now =
     andThen (onLinks (modify now (updateLink_modifier serverId updates now)))
       (\<lambda>(u, updatedLink). return (map_of updatedLink serverId))"



text \<open>\<open>updateApiKeyUsage\<close> logs and swallows the error of \<open>updateLink\<close>.\<close>

definition updateApiKeyUsage :: "string \<Rightarrow> int \<Rightarrow> world \<Rightarrow> unit outcome \<times> world" where
  "updateApiKeyUsage serverId now =
     tryCatch
       (andThen (updateLink serverId (\<lambda>l. l\<lparr> l_apiKeyLastUsed := Some now \<rparr>) now)
          (\<lambda>updated. return ()))
       (\<lambda>error. return ())"

definition regenerateApiKey ::
  "crypto \<Rightarrow> string \<Rightarrow> string \<Rightarrow> int \<Rightarrow> world \<Rightarrow> (link option \<times> string) outcome \<times> world" where
  "regenerateApiKey cr serverId randomBytes now =
     (let apiKey = generateApiKey serverId randomBytes;
          hashedKey = hashApiKey cr apiKey
      in andThen (updateLink serverId
                    (\<lambda>l. l\<lparr> l_apiKeyHash := hashedKey, l_apiKeyCreated := now,
                            l_apiKeyLastUsed := None \<rparr>) now)
           (\<lambda>updatedLink. return (updatedLink, apiKey)))"

text \<open>
  \<open>validateApiKey\<close>: the first entry whose stored hash equals the hash of the presented
  key; \<open>updateApiKeyUsage\<close> is awaited before the link (as read) is returned.
\<close>

definition validateApiKey :: "crypto \<Rightarrow> string \<Rightarrow> int \<Rightarrow> world \<Rightarrow> link option outcome \<times> world" where
  "validateApiKey cr apiKey now =
     tryCatch
       (let hashedKey = hashApiKey cr apiKey
        in andThen (getAllLinks now) (\<lambda>links.
             case find (\<lambda>(serverId, link). l_apiKeyHash link = hashedKey) links of
               Some (serverId, link) \<Rightarrow>
                 andThen (updateApiKeyUsage serverId now) (\<lambda>touched. return (Some link))
             | None \<Rightarrow> return None))
       (\<lambda>error. return None)"

section \<open>The authentication middleware (Roblox/api/auth.js)\<close>

text \<open>
  The parts of an Express request the middleware reads. A header or property that is
  absent is \<open>None\<close>; \<open>rq_body\<close> is the serialised body that enters the signature.
\<close>

record request =
  rq_authorization :: "string option"
  rq_bodyTimestamp :: "int option"
  rq_queryTimestamp :: "int option"
  rq_signature :: "string option"
  rq_bodyPlaceId :: "string option"
  rq_queryPlaceId :: "string option"
  rq_method :: string
  rq_path :: string
  rq_body :: string










section \<open>The ownership verifier (Roblox/utils/verification.js)\<close>



text \<open>
  \<open>startVerification\<close>: \<open>code\<close> is the random code drawn by \<open>generateVerificationCode\<close>,
  \<open>groupInfo\<close> the outcome of the lookup of the group (its name, or nothing).
\<close>

definition startVerification_verification ::
  "string \<Rightarrow> string \<Rightarrow> string \<Rightarrow> string \<Rightarrow> int \<Rightarrow> verification" where
  "startVerification_verification serverId groupId userId code now =
     \<lparr> v_serverId = serverId,
       v_groupId = groupId,
       v_code = ''KS_VERIFY_'' @ code,
       v_initiatedBy = userId,
       v_createdAt = now,
       v_expiresAt = now + 10 * 60 * 1000,
       v_verified = False,
       v_verifiedAt = None,
       v_attempts = 0,
       v_maxAttempts = 5 \<rparr>"

definition startVerification_modifier ::
  "string \<Rightarrow> verification \<Rightarrow> verifications \<Rightarrow> err + unit \<times> verifications" where
  "startVerification_modifier serverId verification verifications =
     Inr ((), verifications(serverId \<mapsto> verification))"

definition startVerification ::
  "string \<Rightarrow> string \<Rightarrow> string \<Rightarrow> string \<Rightarrow> err + string option \<Rightarrow> int
     \<Rightarrow> world \<Rightarrow> verification outcome \<times> world" where
  "startVerification serverId groupId userId code groupInfo now =
     andThen (outside groupInfo) (\<lambda>info.
       case info of
         None \<Rightarrow> throw (External ''Group not found'')
       | Some groupName \<Rightarrow>
           (let verification = startVerification_verification serverId groupId userId code now
            in andThen (onVerifications (modify now (startVerification_modifier serverId verification)))
                 (\<lambda>written. return verification)))"











section \<open>The role synchronization worker (Roblox/utils/role\_sync.js)\<close>













section \<open>The predicates of the specification\<close>

text \<open>
  The state of a path once \<open>modify\<close> has been called on it with a modifier: the lock
  is taken and the call is entered in the journal.
\<close>

definition asked :: "('d \<Rightarrow> err + 'r \<times> 'd) \<Rightarrow> 'd docfile \<Rightarrow> 'd docfile" where
  "asked modifier f = f\<lparr> f_lock := True, f_requests := f_requests f @ [document modifier] \<rparr>"

text \<open>
  Two states that differ in the read caches only: what a call leaves that has read
  documents and assigned to the objects read, and has called nothing else.
\<close>

definition recached :: "world \<Rightarrow> world \<Rightarrow> bool" where
  "recached w w' =
     (\<exists>queueCache linksCache verificationsCache.
        w' = w\<lparr> w_queue := (w_queue w)\<lparr> f_cache := queueCache \<rparr>,
                w_links := (w_links w)\<lparr> f_cache := linksCache \<rparr>,
                w_verifications := (w_verifications w)\<lparr> f_cache := verificationsCache \<rparr> \<rparr>)"

text \<open>
  A call that only reads: it never throws, and returns or waits in a state that differs
  from the one it started in by the caches.
\<close>

definition reads :: "(world \<Rightarrow> 'a outcome \<times> world) \<Rightarrow> bool" where
  "reads operation =
     (\<forall>w. recached w (snd (operation w)) \<and>
          (fst (operation w) = Waiting \<or> (\<exists>a. fst (operation w) = Returned a)))"

text \<open>The three documents on disk.\<close>

definition disks :: "world \<Rightarrow> job list \<times> links \<times> verifications" where
  "disks w = (f_disk (w_queue w), f_disk (w_links w), f_disk (w_verifications w))"





text \<open>
  The values that \<open>markFailed\<close>, called with retry allowed for the job it has read, hands
  to \<open>updateJob\<close>; those that \<open>markCompleted\<close> and \<open>markInProgress\<close> hand to it; and the
  value that \<open>updateApiKeyUsage\<close> hands to \<open>updateLink\<close>.
\<close>

definition failedAttempt :: "err \<Rightarrow> int \<Rightarrow> job \<Rightarrow> job \<Rightarrow> job" where
  "failedAttempt e now read_job j =
     (if j_attempts read_job + 1 < j_maxAttempts read_job
      then j\<lparr> j_status := RETRYING, j_attempts := j_attempts read_job + 1,
              j_errors := j_errors read_job @ [(e, now)], j_lastError := Some e,
              j_nextRetryAt :=
                Some (now + int (delayMinutes (j_attempts read_job + 1)) * 60 * 1000) \<rparr>
      else j\<lparr> j_status := FAILED, j_attempts := j_attempts read_job + 1,
              j_errors := j_errors read_job @ [(e, now)], j_lastError := Some e,
              j_completedAt := Some now \<rparr>)"



definition touched :: "int \<Rightarrow> link \<Rightarrow> link" where
  "touched now l = l\<lparr> l_apiKeyLastUsed := Some now \<rparr>"




section \<open>Data for the worked examples\<close>

text \<open>A job as the enqueue builds it, with a given priority and creation time.\<close>

definition queuedJob :: "string \<Rightarrow> int \<Rightarrow> int \<Rightarrow> job" where
  "queuedJob name priority createdAt =
     addJob_job \<lparr> jd_serverId = ''server-1'', jd_robloxUserId = Text name,
                  jd_groupId = ''group-1'', jd_newRank = Number 10,
                  jd_priority = Some priority, jd_maxAttempts = None \<rparr>
       name createdAt"

text \<open>
  Stand-ins for the cryptographic primitives (string reversal for the digest, which like
  SHA-256 is taken to be free of collisions) and the random body of a key.
\<close>

definition exampleCrypto :: crypto where
  "exampleCrypto =
     \<lparr> c_sha256 = rev, c_API_KEY_SALT = None,
       c_hmacMatches = (\<lambda>signatureData key signature. signature = rev (signatureData @ key)) \<rparr>"

definition randomA :: string where
  "randomA = ''00112233445566778899aabbccddeeff00112233445566778899aabbccddeeff''"

text \<open>
  The link of tenant \<open>server-1\<close> as \<open>createLink\<close> builds it with the key of body
  \<open>randomA\<close>, the same link verified, and a request that presents that key with a fresh
  timestamp and an authorized place.
\<close>

definition pendingLink :: link where
  "pendingLink =
     createLink_link ''server-1'' \<lparr> ld_groupId = ''group-1'', ld_placeIds = Some [''place-1''] \<rparr>
       (hashApiKey exampleCrypto (generateApiKey ''server-1'' randomA)) 1000"




text \<open>
  The process after start, with given documents on disk: nothing locked, nothing cached,
  no call made.
\<close>

definition onDisk :: "job list \<Rightarrow> links \<Rightarrow> verifications \<Rightarrow> world" where
  "onDisk queue links verifications =
     \<lparr> w_queue = stored queue, w_links = stored links,
       w_verifications = stored verifications, w_setRankCalls = [] \<rparr>"

text \<open>
  The job that the enqueue builds for a sync of a subject of tenant \<open>server-1\<close> to
  rank 5, the same job after two failed attempts, and after it has failed for good.
\<close>

definition jobFor :: "string \<Rightarrow> string \<Rightarrow> job" where
  "jobFor jobId userId =
     addJob_job \<lparr> jd_serverId = ''server-1'', jd_robloxUserId = Text userId,
                  jd_groupId = ''group-1'', jd_newRank = Number 5,
                  jd_priority = Some 0, jd_maxAttempts = None \<rparr>
       jobId 3000"

definition twiceFailed :: "string \<Rightarrow> string \<Rightarrow> job" where
  "twiceFailed jobId userId =
     (jobFor jobId userId)\<lparr> j_status := IN_PROGRESS, j_attempts := 2,
                            j_lastAttemptAt := Some 900000 \<rparr>"




section \<open>The document store: a call of modify waits for ever\<close>

lemma waitForLock_free: "\<not> f_lock f \<Longrightarrow> waitForLock f = Some ()"
  by (subst waitForLock.simps) simp

lemma waitForLock_Some: "waitForLock f = Some u \<Longrightarrow> \<not> f_lock f"
  by (rule waitForLock.raw_induct [where P = "\<lambda>f u. \<not> f_lock f"])
     (simp_all split: if_splits)

lemma waitForLock_locked: "f_lock f \<Longrightarrow> waitForLock f = None"
  using waitForLock_Some [of f] by (cases "waitForLock f") auto

lemma acquireLock_free: "\<not> f_lock f \<Longrightarrow> acquireLock f = Some (f\<lparr> f_lock := True \<rparr>)"
  by (subst acquireLock.simps) simp

lemma acquireLock_Some: "acquireLock f = Some f' \<Longrightarrow> \<not> f_lock f"
  by (rule acquireLock.raw_induct [where P = "\<lambda>f f'. \<not> f_lock f"])
     (simp_all split: if_splits)

lemma acquireLock_locked: "f_lock f \<Longrightarrow> acquireLock f = None"
  using acquireLock_Some [of f] by (cases "acquireLock f") auto

lemma read_locked: "f_lock f \<Longrightarrow> read now False f = (Waiting, f)"
  by (simp add: read_def waitForLock_locked)

lemma modify_waits: "modify now modifier f = (Waiting, asked modifier f)"
proof (cases "f_lock f")
  case True
  then show ?thesis
    by (simp add: modify_def Let_def acquireLock_locked asked_def)
next
  case False
  then show ?thesis
    by (simp add: modify_def Let_def acquireLock_free andThen_def read_locked asked_def)
qed

lemma read_cases:
  "read now useCache f = (Waiting, f) \<or>
   (\<exists>data cache. read now useCache f = (Returned data, f\<lparr> f_cache := cache \<rparr>))"
proof -
  have same: "f = f\<lparr> f_cache := f_cache f \<rparr>" by simp
  have "read now useCache f = (Waiting, f) \<or>
        (\<exists>data. read now useCache f = (Returned data, f)) \<or>
        (\<exists>data. read now useCache f = (Returned data, f\<lparr> f_cache := Some (f_disk f, now) \<rparr>))"
    by (cases "f_lock f")
       (auto simp: read_def waitForLock_locked waitForLock_free split: option.splits)
  then show ?thesis using same by metis
qed

lemma read_stored: "read now True (stored data) = (Returned data, (stored data)\<lparr> f_cache := Some (data, now) \<rparr>)"
  by (simp add: read_def stored_def waitForLock_free)

lemma onQueue_modify: "onQueue (modify now m) w = (Waiting, w\<lparr> w_queue := asked m (w_queue w) \<rparr>)"
  by (simp add: onQueue_def modify_waits)

lemma onLinks_modify: "onLinks (modify now m) w = (Waiting, w\<lparr> w_links := asked m (w_links w) \<rparr>)"
  by (simp add: onLinks_def modify_waits)


lemma andThen_Waiting: "m s = (Waiting, s') \<Longrightarrow> andThen m k s = (Waiting, s')"
  by (simp add: andThen_def)

lemma andThen_Returned: "m s = (Returned a, s') \<Longrightarrow> andThen m k s = k a s'"
  by (simp add: andThen_def)

lemma andThen_Thrown: "m s = (Thrown e, s') \<Longrightarrow> andThen m k s = (Thrown e, s')"
  by (simp add: andThen_def)

lemma tryCatch_Waiting: "m s = (Waiting, s') \<Longrightarrow> tryCatch m h s = (Waiting, s')"
  by (simp add: tryCatch_def)

lemma tryCatch_Returned: "m s = (Returned a, s') \<Longrightarrow> tryCatch m h s = (Returned a, s')"
  by (simp add: tryCatch_def)

lemma tryCatch_Thrown: "m s = (Thrown e, s') \<Longrightarrow> tryCatch m h s = h e s'"
  by (simp add: tryCatch_def)

lemma updateJob_waits:
  "updateJob jobId updates now w
     = (Waiting, w\<lparr> w_queue := asked (updateJob_modifier jobId updates now) (w_queue w) \<rparr>)"
  by (simp add: updateJob_def andThen_Waiting [OF onQueue_modify])

lemma addJob_waits:
  "addJob jobData newId now w
     = (Waiting, w\<lparr> w_queue := asked (addJob_modifier (addJob_job jobData newId now)) (w_queue w) \<rparr>)"
  by (simp add: addJob_def Let_def andThen_Waiting [OF onQueue_modify])

lemma retryFailedJobs_waits:
  "retryFailedJobs serverId now w
     = (Waiting, w\<lparr> w_queue := asked (retryFailedJobs_modifier serverId now) (w_queue w) \<rparr>)"
  by (simp add: retryFailedJobs_def tryCatch_Waiting [OF andThen_Waiting [OF onQueue_modify]])

lemma updateLink_waits:
  "updateLink serverId updates now w
     = (Waiting, w\<lparr> w_links := asked (updateLink_modifier serverId updates now) (w_links w) \<rparr>)"
  by (simp add: updateLink_def andThen_Waiting [OF onLinks_modify])

lemma createLink_waits:
  "createLink cr serverId linkData randomBytes now w
     = (Waiting,
        w\<lparr> w_links :=
             asked (createLink_modifier serverId
                      (createLink_link serverId linkData
                         (hashApiKey cr (generateApiKey serverId randomBytes)) now))
               (w_links w) \<rparr>)"
  by (simp add: createLink_def Let_def andThen_Waiting [OF onLinks_modify])

lemma updateApiKeyUsage_waits:
  "updateApiKeyUsage serverId now w
     = (Waiting,
        w\<lparr> w_links := asked (updateLink_modifier serverId (touched now) now) (w_links w) \<rparr>)"
  by (simp add: updateApiKeyUsage_def touched_def [abs_def]
        tryCatch_Waiting [OF andThen_Waiting [OF updateLink_waits]])

lemma regenerateApiKey_waits:
  "regenerateApiKey cr serverId randomBytes now w
     = (Waiting,
        w\<lparr> w_links :=
             asked (updateLink_modifier serverId
                      (\<lambda>l. l\<lparr> l_apiKeyHash := hashApiKey cr (generateApiKey serverId randomBytes),
                              l_apiKeyCreated := now, l_apiKeyLastUsed := None \<rparr>) now)
               (w_links w) \<rparr>)"
  by (simp add: regenerateApiKey_def Let_def andThen_Waiting [OF updateLink_waits])





section \<open>Reading\<close>

lemma recachedI:
  "w' = w\<lparr> w_queue := (w_queue w)\<lparr> f_cache := c1 \<rparr>,
           w_links := (w_links w)\<lparr> f_cache := c2 \<rparr>,
           w_verifications := (w_verifications w)\<lparr> f_cache := c3 \<rparr> \<rparr> \<Longrightarrow> recached w w'"
  unfolding recached_def by blast

lemma recached_refl: "recached w w"
  by (rule recachedI [where ?c1.0 = "f_cache (w_queue w)" and ?c2.0 = "f_cache (w_links w)"
        and ?c3.0 = "f_cache (w_verifications w)"]) simp

lemma recached_trans: "recached w w1 \<Longrightarrow> recached w1 w2 \<Longrightarrow> recached w w2"
  unfolding recached_def by (elim exE) (simp, blast)

lemma recached_queue: "recached w (w\<lparr> w_queue := (w_queue w)\<lparr> f_cache := cache \<rparr> \<rparr>)"
  by (rule recachedI [where ?c1.0 = cache and ?c2.0 = "f_cache (w_links w)"
        and ?c3.0 = "f_cache (w_verifications w)"]) simp

lemma recached_links: "recached w (w\<lparr> w_links := (w_links w)\<lparr> f_cache := cache \<rparr> \<rparr>)"
  by (rule recachedI [where ?c1.0 = "f_cache (w_queue w)" and ?c2.0 = cache
        and ?c3.0 = "f_cache (w_verifications w)"]) simp

lemma recached_verifications:
  "recached w (w\<lparr> w_verifications := (w_verifications w)\<lparr> f_cache := cache \<rparr> \<rparr>)"
  by (rule recachedI [where ?c1.0 = "f_cache (w_queue w)" and ?c2.0 = "f_cache (w_links w)"
        and ?c3.0 = cache]) simp

lemma recached_same:
  assumes "recached w w'"
  shows "disks w' = disks w"
    and "w_setRankCalls w' = w_setRankCalls w"
    and "f_requests (w_queue w') = f_requests (w_queue w)"
    and "f_requests (w_links w') = f_requests (w_links w)"
    and "f_requests (w_verifications w') = f_requests (w_verifications w)"
    and "f_lock (w_queue w') = f_lock (w_queue w)"
    and "f_lock (w_links w') = f_lock (w_links w)"
    and "f_lock (w_verifications w') = f_lock (w_verifications w)"
    and "f_disk (w_queue w') = f_disk (w_queue w)"
    and "f_disk (w_links w') = f_disk (w_links w)"
    and "f_disk (w_verifications w') = f_disk (w_verifications w)"
  using assms unfolding recached_def disks_def by auto

lemma readsE:
  assumes "reads operation"
  obtains w' where "operation w = (Waiting, w')" "recached w w'"
  | a w' where "operation w = (Returned a, w')" "recached w w'"
proof -
  from assms have r: "recached w (snd (operation w))"
    and c: "fst (operation w) = Waiting \<or> (\<exists>a. fst (operation w) = Returned a)"
    unfolding reads_def by auto
  from c show thesis
  proof
    assume "fst (operation w) = Waiting"
    then have "operation w = (Waiting, snd (operation w))" by (cases "operation w") simp
    with r that(1) show thesis by blast
  next
    assume "\<exists>a. fst (operation w) = Returned a"
    then obtain a where "fst (operation w) = Returned a" ..
    then have "operation w = (Returned a, snd (operation w))" by (cases "operation w") simp
    with r that(2) show thesis by blast
  qed
qed

lemma reads_return: "reads (return a)"
  by (simp add: reads_def return_def recached_refl)

lemma reads_andThen:
  assumes "reads m" and "\<And>a. reads (k a)"
  shows "reads (andThen m k)"
  unfolding reads_def
proof
  fix w :: world
  from assms(1) show "recached w (snd (andThen m k w)) \<and>
          (fst (andThen m k w) = Waiting \<or> (\<exists>a. fst (andThen m k w) = Returned a))"
  proof (rule readsE [where w = w])
    fix w'
    assume "m w = (Waiting, w')" "recached w w'"
    then show ?thesis by (simp add: andThen_def)
  next
    fix a w'
    assume m: "m w = (Returned a, w')" "recached w w'"
    from assms(2) [of a] show ?thesis
    proof (rule readsE [where w = w'])
      fix w''
      assume "k a w' = (Waiting, w'')" "recached w' w''"
      with m show ?thesis by (auto simp: andThen_def intro: recached_trans)
    next
      fix b w''
      assume "k a w' = (Returned b, w'')" "recached w' w''"
      with m show ?thesis by (auto simp: andThen_def intro: recached_trans)
    qed
  qed
qed

lemma reads_tryCatch:
  assumes "reads m"
  shows "reads (tryCatch m h)"
  unfolding reads_def
proof
  fix w :: world
  from assms show "recached w (snd (tryCatch m h w)) \<and>
          (fst (tryCatch m h w) = Waiting \<or> (\<exists>a. fst (tryCatch m h w) = Returned a))"
    by (rule readsE [where w = w]) (simp_all add: tryCatch_def)
qed

lemma reads_onQueue_read: "reads (onQueue (read now useCache))"
  unfolding reads_def
proof
  fix w :: world
  from read_cases [of now useCache "w_queue w"]
  show "recached w (snd (onQueue (read now useCache) w)) \<and>
          (fst (onQueue (read now useCache) w) = Waiting \<or>
           (\<exists>a. fst (onQueue (read now useCache) w) = Returned a))"
    by (auto simp: onQueue_def recached_refl recached_queue)
qed



lemma reads_onQueue_mutateCached: "reads (onQueue (mutateCached g))"
  by (simp add: reads_def onQueue_def mutateCached_def recached_queue)

lemma reads_onLinks_mutateCached: "reads (onLinks (mutateCached g))"
  by (simp add: reads_def onLinks_def mutateCached_def recached_links)

lemma reads_onVerifications_mutateCached: "reads (onVerifications (mutateCached g))"
  by (simp add: reads_def onVerifications_def mutateCached_def recached_verifications)

lemma reads_getAllJobs: "reads (getAllJobs now)"
  unfolding getAllJobs_def by (intro reads_tryCatch reads_onQueue_read)

lemma reads_getJob: "reads (getJob jobId now)"
  unfolding getJob_def by (intro reads_tryCatch reads_andThen reads_getAllJobs reads_return)

lemma reads_getServerJobs: "reads (getServerJobs serverId flt now)"
  unfolding getServerJobs_def Let_def
  by (intro reads_tryCatch reads_andThen reads_getAllJobs reads_return)

lemma reads_getUserJobs: "reads (getUserJobs serverId robloxUserId now)"
  unfolding getUserJobs_def by (intro reads_tryCatch reads_getServerJobs)

lemma reads_hasPendingSync: "reads (hasPendingSync serverId robloxUserId now)"
  unfolding hasPendingSync_def
  by (intro reads_tryCatch reads_andThen reads_getUserJobs reads_return)






section \<open>The queue\<close>

lemma findIndex_None_iff: "findIndex P xs = None \<longleftrightarrow> (\<forall>x\<in>set xs. \<not> P x)"
  by (induction xs) auto

lemma findIndex_SomeD:
  "findIndex P xs = Some i \<Longrightarrow> i < length xs \<and> P (xs ! i) \<and> (\<forall>k<i. \<not> P (xs ! k))"
proof (induction xs arbitrary: i)
  case Nil
  then show ?case by simp
next
  case (Cons x xs)
  show ?case
  proof (cases "P x")
    case True
    with Cons.prems show ?thesis by simp
  next
    case False
    with Cons.prems obtain i' where i': "findIndex P xs = Some i'" "i = Suc i'"
      by auto
    from Cons.IH [OF i'(1)] False i'(2) show ?thesis
      by (auto simp: nth_Cons split: nat.splits)
  qed
qed

lemma delayMinutes_table: "map delayMinutes [1, 2, 3, 4, 5] = [5, 10, 20, 30, 30]"
  by (simp add: delayMinutes_def eval_nat_numeral)

lemma delayMinutes_mono: "m \<le> n \<Longrightarrow> delayMinutes m \<le> delayMinutes n"
  unfolding delayMinutes_def
  by (intro min.mono mult_le_mono power_increasing diff_le_mono) simp_all

lemma delayMinutes_cap: "delayMinutes n \<le> 30"
  by (simp add: delayMinutes_def)

lemma asked_same:
  "f_disk (asked m f) = f_disk f" "f_cache (asked m f) = f_cache f" "f_lock (asked m f)"
  "f_requests (asked m f) = f_requests f @ [document m]"
  by (simp_all add: asked_def)

lemma failedAttempt_retry:
  "j_attempts read_job + 1 < j_maxAttempts read_job \<Longrightarrow>
   failedAttempt e now read_job =
     (\<lambda>j. j\<lparr> j_status := RETRYING, j_attempts := j_attempts read_job + 1,
             j_errors := j_errors read_job @ [(e, now)], j_lastError := Some e,
             j_nextRetryAt :=
               Some (now + int (delayMinutes (j_attempts read_job + 1)) * 60 * 1000) \<rparr>)"
  by (intro ext) (simp add: failedAttempt_def)

lemma failedAttempt_last:
  "\<not> j_attempts read_job + 1 < j_maxAttempts read_job \<Longrightarrow>
   failedAttempt e now read_job =
     (\<lambda>j. j\<lparr> j_status := FAILED, j_attempts := j_attempts read_job + 1,
             j_errors := j_errors read_job @ [(e, now)], j_lastError := Some e,
             j_completedAt := Some now \<rparr>)"
  by (intro ext) (simp add: failedAttempt_def)

text \<open>
  \<open>markFailed\<close> on a job that \<open>getJob\<close> finds, with retry allowed: it ends in the call
  of \<open>updateJob\<close>, which waits.
\<close>

lemma markFailed_found:
  assumes "getJob jobId now w = (Returned (Some read_job), w1)"
  shows "\<exists>w2. recached w1 w2 \<and>
           markFailed jobId e True now w =
             (Waiting,
              w2\<lparr> w_queue := asked (updateJob_modifier jobId (failedAttempt e now read_job) now)
                                (w_queue w2) \<rparr>)"
proof -
  let ?job = "read_job\<lparr> j_attempts := j_attempts read_job + 1,
                         j_errors := j_errors read_job @ [(e, now)],
                         j_lastError := Some e \<rparr>"
  let ?cache = "map_option (\<lambda>(data, timestamp). (replaceFirst (\<lambda>j. j_id j = jobId) ?job data, timestamp))
                  (f_cache (w_queue w1))"
  let ?w2 = "w1\<lparr> w_queue := (w_queue w1)\<lparr> f_cache := ?cache \<rparr> \<rparr>"
  have r: "recached w1 ?w2" by (rule recached_queue)
  have "markFailed jobId e True now w =
             (Waiting,
              ?w2\<lparr> w_queue := asked (updateJob_modifier jobId (failedAttempt e now read_job) now)
                                (w_queue ?w2) \<rparr>)"
  proof (cases "j_attempts read_job + 1 < j_maxAttempts read_job")
    case True
    then show ?thesis
      by (simp add: markFailed_def andThen_def assms Let_def onQueue_def mutateCached_def
            updateJob_waits failedAttempt_retry)
  next
    case False
    then show ?thesis
      by (simp add: markFailed_def andThen_def assms Let_def onQueue_def mutateCached_def
            updateJob_waits failedAttempt_last)
  qed
  with r show ?thesis by blast
qed

text \<open>\<open>markFailed\<close> never returns a job and never changes a document on disk.\<close>

lemma markFailed_never:
  "(fst (markFailed jobId e retry now w) = Waiting \<or>
    fst (markFailed jobId e retry now w) = Thrown Job_not_found) \<and>
   disks (snd (markFailed jobId e retry now w)) = disks w"
proof (rule readsE [OF reads_getJob, where w = w and jobId1 = jobId and now1 = now])
  fix w'
  assume "getJob jobId now w = (Waiting, w')" "recached w w'"
  then show ?thesis
    by (simp add: markFailed_def andThen_def recached_same)
next
  fix found w'
  assume g: "getJob jobId now w = (Returned found, w')" and r: "recached w w'"
  show ?thesis
  proof (cases found)
    case None
    with g r show ?thesis
      by (simp add: markFailed_def andThen_def throw_def recached_same)
  next
    case (Some read_job)
    with g r show ?thesis
      by (simp add: markFailed_def andThen_def Let_def onQueue_def mutateCached_def
            updateJob_waits disks_def asked_same recached_same)
  qed
qed

lemma queuedJob_eq:
  "queuedJob name priority createdAt =
     \<lparr> j_id = name, j_serverId = ''server-1'', j_robloxUserId = Text name, j_groupId = ''group-1'',
       j_newRank = Number 10, j_status = QUEUED, j_priority = priority, j_attempts = 0,
       j_maxAttempts = 3, j_lastAttemptAt = None, j_nextRetryAt = None, j_errors = [],
       j_lastError = None, j_createdAt = createdAt, j_updatedAt = createdAt,
       j_completedAt = None \<rparr>"
  by (simp add: queuedJob_def addJob_job_def or_default_def)

lemmas store_eval =
  onDisk_def stored_def read_def waitForLock_free onQueue_def onLinks_def onVerifications_def
  andThen_def tryCatch_def return_def throw_def outside_def mutateCached_def asked_def
  requested_def document_def Let_def

lemma getJob_onDisk:
  "getJob jobId now (onDisk queue links verifications) =
     (Returned (find (\<lambda>j. j_id j = jobId) queue),
      (onDisk queue links verifications)\<lparr> w_queue := (stored queue)\<lparr> f_cache := Some (queue, now) \<rparr> \<rparr>)"
  by (simp add: getJob_def getAllJobs_def store_eval)

text \<open>
  Claim C5. The delay that \<open>markFailed\<close> computes is \<open>min (5 * 2 ^ (attempts - 1)) 30\<close>
  minutes: 5, 10, 20, 30 and 30 for attempts 1 to 5, never decreasing with the attempts
  and never above 30. The job, however, is not set to retrying. \<open>markFailed\<close> ends in
  the call of \<open>updateJob\<close>, whose \<open>modify\<close> takes the lock of the file and then waits
  for it in \<open>read\<close>: every call of \<open>markFailed\<close> waits for ever or throws
  \<open>Job not found\<close>, and leaves the documents on disk as they were. For the queued job
  \<open>A\<close> without attempts and the clock at 1000, the call waits, the job on disk is
  unchanged, and the document that the call has asked the store to write has the job
  retrying with \<open>nextRetryAt\<close> five minutes after the clock.
\<close>

theorem markFailed_backoff_not_stored:
  "(fst (markFailed jobId e retry now w) = Waiting \<or>
    fst (markFailed jobId e retry now w) = Thrown Job_not_found)
   \<and> disks (snd (markFailed jobId e retry now w)) = disks w
   \<and> fst (markFailed ''A'' (External ''timeout'') True 1000
             (onDisk [queuedJob ''A'' 0 1] [] Map.empty)) = Waiting
   \<and> f_disk (w_queue (snd (markFailed ''A'' (External ''timeout'') True 1000
                              (onDisk [queuedJob ''A'' 0 1] [] Map.empty))))
       = [queuedJob ''A'' 0 1]
   \<and> requested (w_queue (snd (markFailed ''A'' (External ''timeout'') True 1000
                                 (onDisk [queuedJob ''A'' 0 1] [] Map.empty))))
       = [Inr [(queuedJob ''A'' 0 1)\<lparr> j_status := RETRYING, j_attempts := 1,
                  j_errors := [(External ''timeout'', 1000)],
                  j_lastError := Some (External ''timeout''),
                  j_nextRetryAt := Some (1000 + 5 * 60 * 1000), j_updatedAt := 1000 \<rparr>]]
   \<and> map delayMinutes [1, 2, 3, 4, 5] = [5, 10, 20, 30, 30]
   \<and> delayMinutes m \<le> delayMinutes (m + k)
   \<and> delayMinutes n \<le> 30"
proof -
  have g: "getJob ''A'' 1000 (onDisk [queuedJob ''A'' 0 1] [] Map.empty) =
     (Returned (Some (queuedJob ''A'' 0 1)),
      (onDisk [queuedJob ''A'' 0 1] [] Map.empty)
        \<lparr> w_queue := (stored [queuedJob ''A'' 0 1])\<lparr> f_cache := Some ([queuedJob ''A'' 0 1], 1000) \<rparr> \<rparr>)"
    by (simp add: getJob_onDisk queuedJob_eq)
  have a: "j_attempts (queuedJob ''A'' 0 1) + 1 < j_maxAttempts (queuedJob ''A'' 0 1)"
    by (simp add: queuedJob_eq)
  from markFailed_found [OF g, of "External ''timeout''"]
  obtain w2 where w2: "recached
        ((onDisk [queuedJob ''A'' 0 1] [] Map.empty)
        \<lparr> w_queue := (stored [queuedJob ''A'' 0 1])\<lparr> f_cache := Some ([queuedJob ''A'' 0 1], 1000) \<rparr> \<rparr>) w2"
    and mf: "markFailed ''A'' (External ''timeout'') True 1000 (onDisk [queuedJob ''A'' 0 1] [] Map.empty) =
       (Waiting, w2\<lparr> w_queue := asked (updateJob_modifier ''A''
                    (failedAttempt (External ''timeout'') 1000 (queuedJob ''A'' 0 1)) 1000) (w_queue w2) \<rparr>)"
    by blast
  have d: "f_disk (w_queue w2) = [queuedJob ''A'' 0 1]" "f_requests (w_queue w2) = []"
    using recached_same(9,3) [OF w2] by (simp_all add: onDisk_def stored_def)
  have u: "updateJob_modifier ''A'' (failedAttempt (External ''timeout'') 1000 (queuedJob ''A'' 0 1)) 1000
             [queuedJob ''A'' 0 1]
           = Inr ((queuedJob ''A'' 0 1)\<lparr> j_status := RETRYING, j_attempts := 1,
                  j_errors := [(External ''timeout'', 1000)],
                  j_lastError := Some (External ''timeout''),
                  j_nextRetryAt := Some (1000 + 5 * 60 * 1000), j_updatedAt := 1000 \<rparr>,
                  [(queuedJob ''A'' 0 1)\<lparr> j_status := RETRYING, j_attempts := 1,
                  j_errors := [(External ''timeout'', 1000)],
                  j_lastError := Some (External ''timeout''),
                  j_nextRetryAt := Some (1000 + 5 * 60 * 1000), j_updatedAt := 1000 \<rparr>])"
    by (simp add: updateJob_modifier_def failedAttempt_def queuedJob_eq delayMinutes_def Let_def)
  show ?thesis
  proof (intro conjI)
    show "fst (markFailed jobId e retry now w) = Waiting \<or>
      fst (markFailed jobId e retry now w) = Thrown Job_not_found"
      using markFailed_never [of jobId e retry now w] by blast
    show "disks (snd (markFailed jobId e retry now w)) = disks w"
      using markFailed_never [of jobId e retry now w] by blast
    show "fst (markFailed ''A'' (External ''timeout'') True 1000
             (onDisk [queuedJob ''A'' 0 1] [] Map.empty)) = Waiting"
      by (simp add: mf)
    show "f_disk (w_queue (snd (markFailed ''A'' (External ''timeout'') True 1000
                              (onDisk [queuedJob ''A'' 0 1] [] Map.empty))))
       = [queuedJob ''A'' 0 1]"
      by (simp add: mf asked_same d)
    show "requested (w_queue (snd (markFailed ''A'' (External ''timeout'') True 1000
                                 (onDisk [queuedJob ''A'' 0 1] [] Map.empty))))
       = [Inr [(queuedJob ''A'' 0 1)\<lparr> j_status := RETRYING, j_attempts := 1,
                  j_errors := [(External ''timeout'', 1000)],
                  j_lastError := Some (External ''timeout''),
                  j_nextRetryAt := Some (1000 + 5 * 60 * 1000), j_updatedAt := 1000 \<rparr>]]"
      by (simp add: mf requested_def asked_same d document_def u)
    show "map delayMinutes [1, 2, 3, 4, 5] = [5, 10, 20, 30, 30]"
      by (rule delayMinutes_table)
    show "delayMinutes m \<le> delayMinutes (m + k)"
      by (rule delayMinutes_mono) simp
    show "delayMinutes n \<le> 30"
      by (rule delayMinutes_cap)
  qed
qed

lemma jobFor_eq:
  "jobFor jobId userId =
     \<lparr> j_id = jobId, j_serverId = ''server-1'', j_robloxUserId = Text userId, j_groupId = ''group-1'',
       j_newRank = Number 5, j_status = QUEUED, j_priority = 0, j_attempts = 0,
       j_maxAttempts = 3, j_lastAttemptAt = None, j_nextRetryAt = None, j_errors = [],
       j_lastError = None, j_createdAt = 3000, j_updatedAt = 3000,
       j_completedAt = None \<rparr>"
  by (simp add: jobFor_def addJob_job_def or_default_def)

lemmas queue_eval =
  markFailed_def getJob_def getAllJobs_def updateJob_waits replaceFirst_def
  updateJob_modifier_def delayMinutes_def

lemma retryFailedJobs_never:
  "fst (retryFailedJobs serverId now w) = Waiting \<and>
   disks (snd (retryFailedJobs serverId now w)) = disks w"
  by (simp add: retryFailedJobs_waits disks_def asked_same)

text \<open>
  Claim C4. When the attempts of a job reach \<open>maxAttempts\<close>, \<open>markFailed\<close> asks for
  status \<open>FAILED\<close> with \<open>completedAt\<close>, whatever the \<open>retry\<close> argument, but the job is
  not set to failed: the call of \<open>updateJob\<close> in which \<open>markFailed\<close> ends waits for
  ever. For the job \<open>job-1\<close> in progress with two of three attempts used, the call
  waits for either value of \<open>retry\<close>, the job on disk stays in progress with two
  attempts, and the document asked for has it failed with three attempts and
  \<open>completedAt\<close> the clock. No call of \<open>markFailed\<close> and no call of the operator's
  re-queue \<open>retryFailedJobs\<close> changes a document on disk.
\<close>

theorem markFailed_at_limit_not_stored:
  "fst (markFailed ''job-1'' (External ''timeout'') retry 1000000
          (onDisk [twiceFailed ''job-1'' ''user-9''] [] Map.empty)) = Waiting
   \<and> f_disk (w_queue (snd (markFailed ''job-1'' (External ''timeout'') retry 1000000
                              (onDisk [twiceFailed ''job-1'' ''user-9''] [] Map.empty))))
       = [twiceFailed ''job-1'' ''user-9'']
   \<and> requested (w_queue (snd (markFailed ''job-1'' (External ''timeout'') retry 1000000
                                 (onDisk [twiceFailed ''job-1'' ''user-9''] [] Map.empty))))
       = [Inr [(twiceFailed ''job-1'' ''user-9'')
                 \<lparr> j_status := FAILED, j_attempts := 3,
                   j_errors := [(External ''timeout'', 1000000)],
                   j_lastError := Some (External ''timeout''),
                   j_completedAt := Some 1000000, j_updatedAt := 1000000 \<rparr>]]
   \<and> j_status (twiceFailed ''job-1'' ''user-9'') = IN_PROGRESS
   \<and> j_attempts (twiceFailed ''job-1'' ''user-9'') + 1 = j_maxAttempts (twiceFailed ''job-1'' ''user-9'')
   \<and> disks (snd (markFailed jobId e retry now w)) = disks w
   \<and> fst (retryFailedJobs serverId now w) = Waiting
   \<and> disks (snd (retryFailedJobs serverId now w)) = disks w"
proof (intro conjI)
  show "disks (snd (markFailed jobId e retry now w)) = disks w"
    using markFailed_never [of jobId e retry now w] by blast
  show "fst (retryFailedJobs serverId now w) = Waiting"
    using retryFailedJobs_never [of serverId now w] by blast
  show "disks (snd (retryFailedJobs serverId now w)) = disks w"
    using retryFailedJobs_never [of serverId now w] by blast
qed (cases retry; simp add: queue_eval store_eval twiceFailed_def jobFor_eq)+

section \<open>The dequeue and the enqueue\<close>









text \<open>
  Claim C10. The job that \<open>addJob\<close> builds and hands to the store, to be appended to
  the queue, has status \<open>QUEUED\<close>, no attempts, no errors, and neither a retry time nor
  a completion time; when the caller gives no \<open>maxAttempts\<close> it is 3, and no
  \<open>priority\<close>, it is 0.
\<close>

theorem addJob_initial_state:
  "(let job = addJob_job jobData newId now in
      j_status job = QUEUED \<and> j_attempts job = 0 \<and> j_errors job = [] \<and>
      j_nextRetryAt job = None \<and> j_completedAt job = None \<and>
      addJob_modifier job queue = Inr ((), queue @ [job]) \<and>
      f_requests (w_queue (snd (addJob jobData newId now w)))
        = f_requests (w_queue w) @ [document (addJob_modifier job)])
   \<and> j_maxAttempts (addJob_job (jobData\<lparr> jd_maxAttempts := None \<rparr>) newId now) = 3
   \<and> j_priority (addJob_job (jobData\<lparr> jd_priority := None \<rparr>) newId now) = 0"
  by (simp add: addJob_job_def addJob_modifier_def addJob_waits asked_same or_default_def Let_def)

theorem addJob_initial_state_witness:
  "(let job = addJob_job \<lparr> jd_serverId = ''server-1'', jd_robloxUserId = Text ''user-1'',
                            jd_groupId = ''group-1'', jd_newRank = Number 10,
                            jd_priority = None, jd_maxAttempts = None \<rparr> ''job-1'' 1000
    in j_status job = QUEUED \<and> j_attempts job = 0 \<and> j_errors job = [] \<and>
       j_nextRetryAt job = None \<and> j_completedAt job = None \<and>
       j_maxAttempts job = 3 \<and> j_priority job = 0 \<and>
       requested (w_queue (snd (addJob \<lparr> jd_serverId = ''server-1'', jd_robloxUserId = Text ''user-1'',
                            jd_groupId = ''group-1'', jd_newRank = Number 10,
                            jd_priority = None, jd_maxAttempts = None \<rparr> ''job-1'' 1000
                          (onDisk [] [] Map.empty)))) = [Inr [job]])"
  using addJob_initial_state [of "\<lparr> jd_serverId = ''server-1'', jd_robloxUserId = Text ''user-1'',
                              jd_groupId = ''group-1'', jd_newRank = Number 10,
                              jd_priority = None, jd_maxAttempts = None \<rparr>" "''job-1''" 1000 "[]"
                              "onDisk [] [] Map.empty"]
  by (simp add: Let_def requested_def document_def addJob_modifier_def addJob_waits asked_same
        onDisk_def stored_def)

section \<open>The credential store\<close>

lemma pendingLink_eq:
  "pendingLink =
     \<lparr> l_serverId = ''server-1'', l_groupId = ''group-1'', l_placeIds = [''place-1''],
       l_apiKeyHash = hashApiKey exampleCrypto (generateApiKey ''server-1'' randomA),
       l_apiKeyCreated = 1000, l_apiKeyLastUsed = None, l_status = PENDING_VERIFICATION,
       l_verified = False, l_verifiedAt = None, l_totalSubmissions = 0, l_totalSyncs = 0,
       l_lastSyncAt = None, l_failedSyncs = 0, l_createdAt = 1000, l_updatedAt = 1000 \<rparr>"
  by (simp add: pendingLink_def createLink_link_def)


lemma createLink_never:
  "fst (createLink cr serverId linkData randomBytes now w) = Waiting \<and>
   disks (snd (createLink cr serverId linkData randomBytes now w)) = disks w"
  by (simp add: createLink_waits disks_def asked_same)

lemma regenerateApiKey_never:
  "fst (regenerateApiKey cr serverId randomBytes now w) = Waiting \<and>
   disks (snd (regenerateApiKey cr serverId randomBytes now w)) = disks w"
  by (simp add: regenerateApiKey_waits disks_def asked_same)

lemmas links_eval =
  validateApiKey_def getAllLinks_def getLink_def updateApiKeyUsage_waits createLink_waits
  createLink_modifier_def updateLink_modifier_def

text \<open>
  Claim C9. No credential is issued and none is validated: \<open>createLink\<close> and
  \<open>regenerateApiKey\<close> end in a call of \<open>modify\<close>, which waits for ever, so neither
  returns a key and neither changes a document on disk. For tenant \<open>server-1\<close> and an
  empty links document, \<open>createLink\<close> asks the store to write the link and waits, the
  document on disk stays empty, and validating the key it has generated waits as well
  (the links are locked). With the link on disk, validating the matching key finds the
  link, awaits \<open>updateApiKeyUsage\<close> and so never returns it.
\<close>

theorem credential_never_issued:
  "fst (createLink cr serverId linkData randomBytes now w) = Waiting
   \<and> disks (snd (createLink cr serverId linkData randomBytes now w)) = disks w
   \<and> fst (regenerateApiKey cr serverId randomBytes now w) = Waiting
   \<and> disks (snd (regenerateApiKey cr serverId randomBytes now w)) = disks w
   \<and> requested (w_links (snd (createLink exampleCrypto ''server-1''
                   \<lparr> ld_groupId = ''group-1'', ld_placeIds = Some [''place-1''] \<rparr> randomA 1000
                   (onDisk [] [] Map.empty))))
       = [Inr [(''server-1'', pendingLink)]]
   \<and> f_disk (w_links (snd (createLink exampleCrypto ''server-1''
                   \<lparr> ld_groupId = ''group-1'', ld_placeIds = Some [''place-1''] \<rparr> randomA 1000
                   (onDisk [] [] Map.empty))))
       = []
   \<and> fst (validateApiKey exampleCrypto (generateApiKey ''server-1'' randomA) 1001
            (snd (createLink exampleCrypto ''server-1''
                   \<lparr> ld_groupId = ''group-1'', ld_placeIds = Some [''place-1''] \<rparr> randomA 1000
                   (onDisk [] [] Map.empty))))
       = Waiting
   \<and> fst (validateApiKey exampleCrypto (generateApiKey ''server-1'' randomA) 2000
            (onDisk [] [(''server-1'', pendingLink)] Map.empty))
       = Waiting
   \<and> f_disk (w_links (snd (validateApiKey exampleCrypto (generateApiKey ''server-1'' randomA) 2000
                              (onDisk [] [(''server-1'', pendingLink)] Map.empty))))
       = [(''server-1'', pendingLink)]"
proof (intro conjI)
  show "fst (createLink cr serverId linkData randomBytes now w) = Waiting"
    using createLink_never [of cr serverId linkData randomBytes now w] by blast
  show "disks (snd (createLink cr serverId linkData randomBytes now w)) = disks w"
    using createLink_never [of cr serverId linkData randomBytes now w] by blast
  show "fst (regenerateApiKey cr serverId randomBytes now w) = Waiting"
    using regenerateApiKey_never [of cr serverId randomBytes now w] by blast
  show "disks (snd (regenerateApiKey cr serverId randomBytes now w)) = disks w"
    using regenerateApiKey_never [of cr serverId randomBytes now w] by blast
  show "requested (w_links (snd (createLink exampleCrypto ''server-1''
                   \<lparr> ld_groupId = ''group-1'', ld_placeIds = Some [''place-1''] \<rparr> randomA 1000
                   (onDisk [] [] Map.empty))))
       = [Inr [(''server-1'', pendingLink)]]"
    by (simp add: links_eval store_eval pendingLink_def)
  show "f_disk (w_links (snd (createLink exampleCrypto ''server-1''
                   \<lparr> ld_groupId = ''group-1'', ld_placeIds = Some [''place-1''] \<rparr> randomA 1000
                   (onDisk [] [] Map.empty))))
       = []"
    by (simp add: links_eval store_eval)
  show "fst (validateApiKey exampleCrypto (generateApiKey ''server-1'' randomA) 1001
            (snd (createLink exampleCrypto ''server-1''
                   \<lparr> ld_groupId = ''group-1'', ld_placeIds = Some [''place-1''] \<rparr> randomA 1000
                   (onDisk [] [] Map.empty))))
       = Waiting"
    by (simp add: links_eval store_eval waitForLock_locked)
  show "fst (validateApiKey exampleCrypto (generateApiKey ''server-1'' randomA) 2000
            (onDisk [] [(''server-1'', pendingLink)] Map.empty))
       = Waiting"
    by (simp add: links_eval store_eval pendingLink_eq)
  show "f_disk (w_links (snd (validateApiKey exampleCrypto (generateApiKey ''server-1'' randomA) 2000
                              (onDisk [] [(''server-1'', pendingLink)] Map.empty))))
       = [(''server-1'', pendingLink)]"
    by (simp add: links_eval store_eval pendingLink_eq)
qed

section \<open>The enqueue guard and the re-queue\<close>




section \<open>The authentication middleware\<close>










section \<open>The ownership verifier\<close>









section \<open>The worker on one job\<close>























end
